theory Spec2Isabelle
  imports Main
begin

section \<open>lib/fsm-types.ts: trip lifecycle tables\<close>

text \<open>
  The six server race states and the seven transition actions are string-literal unions
  in the source; each literal is one constructor here.
\<close>

datatype RaceState =
    RACE_OFFLINE
  | RACE_WAITING_START
  | RACE_BOARDING
  | RACE_IN_TRANSIT
  | RACE_ARRIVED_STOP
  | RACE_FINISHED

datatype TransitionAction =
    start_shift
  | start_trip
  | depart_stop
  | arrive_stop
  | start_boarding
  | finish_trip
  | none

record ButtonConfig =
  label :: string
  action :: TransitionAction
  enabled :: bool
  stopName :: "string option"

record PanelVisibility =
  mainButton :: bool
  queue :: bool
  reservation :: bool
  cash :: bool

text \<open>
  The button labels and the Russian driver name are Cyrillic text in the source. A
  \<^typ>\<open>string\<close> is a list of 8-bit characters, so each is written as its UTF-8 bytes.
\<close>

definition label_offline :: string where
  "label_offline =
     [CHR 0xD0, CHR 0x92, CHR 0xD1, CHR 0x8B, CHR 0xD0, CHR 0xB9, CHR 0xD1, CHR 0x82, CHR
     0xD0, CHR 0xB8, CHR 0x20, CHR 0xD0, CHR 0xBD, CHR 0xD0, CHR 0xB0, CHR 0x20, CHR
     0xD0, CHR 0xBB, CHR 0xD0, CHR 0xB8, CHR 0xD0, CHR 0xBD, CHR 0xD0, CHR 0xB8, CHR
     0xD1, CHR 0x8E]"

definition label_waiting_start :: string where
  "label_waiting_start =
     [CHR 0xD0, CHR 0x9D, CHR 0xD0, CHR 0xB0, CHR 0xD1, CHR 0x87, CHR 0xD0, CHR 0xB0, CHR
     0xD1, CHR 0x82, CHR 0xD1, CHR 0x8C, CHR 0x20, CHR 0xD1, CHR 0x80, CHR 0xD0, CHR
     0xB5, CHR 0xD0, CHR 0xB9, CHR 0xD1, CHR 0x81]"

definition label_boarding :: string where
  "label_boarding =
     [CHR 0xD0, CHR 0x9E, CHR 0xD1, CHR 0x82, CHR 0xD0, CHR 0xBF, CHR 0xD1, CHR 0x80, CHR
     0xD0, CHR 0xB0, CHR 0xD0, CHR 0xB2, CHR 0xD0, CHR 0xB8, CHR 0xD1, CHR 0x82, CHR
     0xD1, CHR 0x8C, CHR 0xD1, CHR 0x81, CHR 0xD1, CHR 0x8F]"

definition label_in_transit :: string where
  "label_in_transit =
     [CHR 0xD0, CHR 0x9F, CHR 0xD1, CHR 0x80, CHR 0xD0, CHR 0xB8, CHR 0xD0, CHR 0xB1, CHR
     0xD1, CHR 0x8B, CHR 0xD0, CHR 0xBB]"

definition label_arrived_stop :: string where
  "label_arrived_stop =
     [CHR 0xD0, CHR 0x9D, CHR 0xD0, CHR 0xB0, CHR 0xD1, CHR 0x87, CHR 0xD0, CHR 0xB0, CHR
     0xD1, CHR 0x82, CHR 0xD1, CHR 0x8C, CHR 0x20, CHR 0xD0, CHR 0xBF, CHR 0xD0, CHR
     0xBE, CHR 0xD1, CHR 0x81, CHR 0xD0, CHR 0xB0, CHR 0xD0, CHR 0xB4, CHR 0xD0, CHR
     0xBA, CHR 0xD1, CHR 0x83]"

definition label_finished :: string where
  "label_finished =
     [CHR 0xD0, CHR 0x97, CHR 0xD0, CHR 0xB0, CHR 0xD0, CHR 0xB2, CHR 0xD0, CHR 0xB5, CHR
     0xD1, CHR 0x80, CHR 0xD1, CHR 0x88, CHR 0xD0, CHR 0xB8, CHR 0xD1, CHR 0x82, CHR
     0xD1, CHR 0x8C, CHR 0x20, CHR 0xD1, CHR 0x80, CHR 0xD0, CHR 0xB5, CHR 0xD0, CHR
     0xB9, CHR 0xD1, CHR 0x81]"

definition driverName_ru :: string where
  "driverName_ru =
     [CHR 0xD0, CHR 0x92, CHR 0xD0, CHR 0xBE, CHR 0xD0, CHR 0xB4, CHR 0xD0, CHR 0xB8, CHR
     0xD1, CHR 0x82, CHR 0xD0, CHR 0xB5, CHR 0xD0, CHR 0xBB, CHR 0xD1, CHR 0x8C, CHR
     0x20, CHR 0xD0, CHR 0x98, CHR 0xD0, CHR 0xB2, CHR 0xD0, CHR 0xB0, CHR 0xD0, CHR
     0xBD, CHR 0xD0, CHR 0xBE, CHR 0xD0, CHR 0xB2, CHR 0x20, CHR 0xD0, CHR 0x98, CHR
     0x2E, CHR 0xD0, CHR 0x98, CHR 0x2E]"

text \<open>
  An object literal is a finite table of own entries in source order: an association
  list, read with \<^const>\<open>map_of\<close>. A key with no entry reads as \<open>undefined\<close>, which is
  \<^const>\<open>None\<close>. (Only own entries are modelled; properties an object inherits from its
  prototype are not part of the table.)
\<close>

definition TRIP_STATUS_TO_RACE_STATE :: "(string \<times> RaceState) list" where
  "TRIP_STATUS_TO_RACE_STATE =
     [(''PREP_IDLE'', RACE_OFFLINE),
      (''PREP_TIMER'', RACE_WAITING_START),
      (''BOARDING'', RACE_BOARDING),
      (''ROUTE_READY'', RACE_ARRIVED_STOP),
      (''IN_ROUTE'', RACE_IN_TRANSIT),
      (''FINISHED'', RACE_FINISHED)]"

definition RACE_STATE_TO_BUTTON :: "(RaceState \<times> ButtonConfig) list" where
  "RACE_STATE_TO_BUTTON =
     [(RACE_OFFLINE,
         \<lparr>label = label_offline, action = start_shift, enabled = True, stopName = None\<rparr>),
      (RACE_WAITING_START,
         \<lparr>label = label_waiting_start, action = start_trip, enabled = True, stopName = None\<rparr>),
      (RACE_BOARDING,
         \<lparr>label = label_boarding, action = depart_stop, enabled = True, stopName = None\<rparr>),
      (RACE_IN_TRANSIT,
         \<lparr>label = label_in_transit, action = arrive_stop, enabled = True, stopName = None\<rparr>),
      (RACE_ARRIVED_STOP,
         \<lparr>label = label_arrived_stop, action = start_boarding, enabled = True, stopName = None\<rparr>),
      (RACE_FINISHED,
         \<lparr>label = label_finished, action = finish_trip, enabled = True, stopName = None\<rparr>)]"

definition RACE_STATE_TO_PANELS :: "(RaceState \<times> PanelVisibility) list" where
  "RACE_STATE_TO_PANELS =
     [(RACE_OFFLINE,
         \<lparr>mainButton = True, queue = False, reservation = False, cash = False\<rparr>),
      (RACE_WAITING_START,
         \<lparr>mainButton = True, queue = False, reservation = False, cash = False\<rparr>),
      (RACE_BOARDING,
         \<lparr>mainButton = True, queue = True, reservation = True, cash = True\<rparr>),
      (RACE_IN_TRANSIT,
         \<lparr>mainButton = True, queue = False, reservation = False, cash = True\<rparr>),
      (RACE_ARRIVED_STOP,
         \<lparr>mainButton = True, queue = True, reservation = True, cash = True\<rparr>),
      (RACE_FINISHED,
         \<lparr>mainButton = True, queue = False, reservation = False, cash = False\<rparr>)]"


section \<open>components/queue-qr-scanner.tsx: data\<close>

text \<open>
  A \<open>number\<close> holding an id, a position or a count is an \<^typ>\<open>int\<close>. An optional
  field (\<open>scanned?\<close>, \<open>qrError?\<close>, \<open>qrData?\<close>) is an \<^typ>\<open>'a option\<close>, \<^const>\<open>None\<close>
  when the field is absent. The fields \<open>id\<close> and \<open>sum\<close> carry a suffix because HOL
  has constants of those names.
\<close>

record QRData =
  sum_qr :: int
  recipient :: string
  created_at :: string

record QueuePassenger =
  id_p :: int
  name :: string
  queuePosition :: int
  isFirst :: bool
  count :: int
  ticketCount :: int
  orderNumber :: int
  scanned :: "bool option"
  qrError :: "bool option"
  qrData :: "QRData option"

text \<open>The three \<open>useState\<close> cells of the component.\<close>

record ScannerState =
  showScanner :: bool
  currentScanId :: "int option"
  scanLocked :: bool

text \<open>
  What a handler does to the outside: a call of \<open>logFSMEvent\<close> (the event name with its
  details; the timestamp the logger adds is left out) or a call of one of the callback
  props. A handler is modelled as the list of these calls in program order, paired with
  the component state after its \<open>set...\<close> calls.
\<close>

datatype FSMEvent =
    ui_blocked string string
  | scan_start int string
  | scan_result int bool int
  | scan_error int string
  | accept_clicked int string
  | reject_clicked int string
  | return_clicked int string

datatype Effect =
    Log FSMEvent
  | OnUpdate "QueuePassenger list"
  | OnAccept int
  | OnReject int
  | OnReturn int

text \<open>JavaScript truthiness of an optional boolean and of \<open>number | null\<close>.\<close>

definition truthy :: "bool option \<Rightarrow> bool" where
  "truthy b = (b = Some True)"

definition truthyId :: "int option \<Rightarrow> bool" where
  "truthyId i = (case i of None \<Rightarrow> False | Some n \<Rightarrow> n \<noteq> 0)"

section \<open>components/queue-qr-scanner.tsx: handlers\<close>

definition scannable :: "QueuePassenger \<Rightarrow> bool" where
  \<comment> \<open>the predicate of line 63: \<open>!p.scanned && !p.qrError\<close>\<close>
  "scannable p = (\<not> truthy (scanned p) \<and> \<not> truthy (qrError p))"

definition handleStartScan ::
  "bool \<Rightarrow> QueuePassenger list \<Rightarrow> ScannerState \<Rightarrow> Effect list \<times> ScannerState" where
  "handleStartScan disabled passengers s =
     (if disabled
      then ([Log (ui_blocked ''queue_scan'' ''preparation_not_started'')], s)
      else
        (case List.find scannable passengers of
           None \<Rightarrow> ([Log (ui_blocked ''queue_scan'' ''no_passengers_available'')], s)
         | Some nextPassenger \<Rightarrow>
             ([Log (scan_start (id_p nextPassenger) ''queue'')],
              s\<lparr>currentScanId := Some (id_p nextPassenger),
                scanLocked := True,
                showScanner := True\<rparr>)))"

definition driverName :: "string \<Rightarrow> string" where
  \<comment> \<open>\<open>language === "ru" ? ... : "Driver Ivanov I."\<close>\<close>
  "driverName language = (if language = ''ru'' then driverName_ru else ''Driver Ivanov I.'')"

text \<open>
  \<open>handleScanSuccess\<close> reads the prop \<open>language\<close> and the clock; both are parameters
  (\<open>now\<close> is the ISO string of the current time). Its two early returns leave the state
  as it is and call nothing.
\<close>

definition handleScanSuccess ::
  "string \<Rightarrow> string \<Rightarrow> QueuePassenger list \<Rightarrow> ScannerState \<Rightarrow> Effect list \<times> ScannerState" where
  "handleScanSuccess language now passengers s =
     (if \<not> truthyId (currentScanId s) then ([], s)
      else
        (case List.find (\<lambda>p. Some (id_p p) = currentScanId s) passengers of
           None \<Rightarrow> ([], s)
         | Some passenger \<Rightarrow>
             (let mockQRData =
                    \<lparr>sum_qr = ticketCount passenger * 320,
                     recipient = driverName language,
                     created_at = now\<rparr>;
                  updatedPassengers =
                    map (\<lambda>p. if Some (id_p p) = currentScanId s
                              then p\<lparr>scanned := Some True,
                                     qrError := Some False,
                                     qrData := Some mockQRData\<rparr>
                              else p) passengers
              in ([Log (scan_result (the (currentScanId s)) True (ticketCount passenger * 320)),
                   OnUpdate updatedPassengers],
                  s\<lparr>showScanner := False, currentScanId := None, scanLocked := False\<rparr>))))"

definition handleScanError ::
  "QueuePassenger list \<Rightarrow> ScannerState \<Rightarrow> Effect list \<times> ScannerState" where
  "handleScanError passengers s =
     (if \<not> truthyId (currentScanId s) then ([], s)
      else
        (let updatedPassengers =
               map (\<lambda>p. if Some (id_p p) = currentScanId s
                         then p\<lparr>qrError := Some True, scanned := Some False\<rparr>
                         else p) passengers
         in ([Log (scan_error (the (currentScanId s)) ''Invalid QR''),
              OnUpdate updatedPassengers],
             s\<lparr>showScanner := False, currentScanId := None, scanLocked := False\<rparr>)))"

definition handleAccept :: "int \<Rightarrow> Effect list" where
  "handleAccept passengerId = [Log (accept_clicked passengerId ''queue''), OnAccept passengerId]"

definition handleReject :: "int \<Rightarrow> Effect list" where
  "handleReject passengerId = [Log (reject_clicked passengerId ''queue''), OnReject passengerId]"

definition handleReturn :: "int \<Rightarrow> Effect list" where
  "handleReturn passengerId = [Log (return_clicked passengerId ''queue''), OnReturn passengerId]"

section \<open>components/queue-qr-scanner.tsx: the rendered controls\<close>

definition awaitingDecision :: "QueuePassenger \<Rightarrow> bool" where
  \<comment> \<open>the predicate of lines 217 and 243: \<open>p.scanned && p.qrData && !p.qrError\<close>\<close>
  "awaitingDecision p = (truthy (scanned p) \<and> qrData p \<noteq> None \<and> \<not> truthy (qrError p))"

text \<open>
  The scan button (lines 243 to 252) is rendered only when no passenger awaits a
  decision, and carries \<open>disabled={disabled || scanLocked}\<close>. A click on a button that is
  absent or disabled runs no handler.
\<close>

definition scanButtonClick ::
  "bool \<Rightarrow> QueuePassenger list \<Rightarrow> ScannerState \<Rightarrow> Effect list \<times> ScannerState" where
  "scanButtonClick disabled passengers s =
     (if \<not> list_ex awaitingDecision passengers \<and> \<not> (disabled \<or> scanLocked s)
      then handleStartScan disabled passengers s
      else ([], s))"

text \<open>
  The accept and reject buttons (lines 216 to 240) are rendered once for each passenger
  that passes the filter, each with \<open>disabled={disabled}\<close>.
\<close>

definition acceptButtonClick :: "bool \<Rightarrow> QueuePassenger list \<Rightarrow> QueuePassenger \<Rightarrow> Effect list" where
  "acceptButtonClick disabled passengers p =
     (if p \<in> set (filter awaitingDecision passengers) \<and> \<not> disabled
      then handleAccept (id_p p)
      else [])"

definition rejectButtonClick :: "bool \<Rightarrow> QueuePassenger list \<Rightarrow> QueuePassenger \<Rightarrow> Effect list" where
  "rejectButtonClick disabled passengers p =
     (if p \<in> set (filter awaitingDecision passengers) \<and> \<not> disabled
      then handleReject (id_p p)
      else [])"

text \<open>
  The dialog's open-state callback is the state setter itself
  (\<open>onOpenChange={setShowScanner}\<close>, line 257).
\<close>

definition onOpenChange :: "bool \<Rightarrow> ScannerState \<Rightarrow> ScannerState" where
  "onOpenChange b s = s\<lparr>showScanner := b\<rparr>"


section \<open>The scan protocol over the handlers\<close>

text \<open>
  The scan status of a passenger, read off the two flags the way the component reads
  them: the render tests \<open>qrError\<close> first (line 184), and a passenger with neither flag
  set is the one \<open>handleStartScan\<close> may pick (line 63).
\<close>

datatype ScanStatus = Pending | Scanned | Error

definition scanStatus :: "QueuePassenger \<Rightarrow> ScanStatus" where
  "scanStatus p =
     (if truthy (qrError p) then Error
      else if truthy (scanned p) then Scanned
      else Pending)"

text \<open>
  Modelled from the spec: the outcome value \<open>Success{sum, recipient} | Failure\<close> that
  the scanning dialog delivers (\<open>CashQRDialog\<close> is not among the sources). The component
  wires \<open>onConfirm\<close> to \<open>handleScanSuccess\<close> and \<open>onInvalid\<close> and \<open>onQRNotFound\<close> to
  \<open>handleScanError\<close> (lines 261 to 265); both handlers are declared without parameters,
  so whatever the dialog passes is dropped.
\<close>

datatype ScanOutcome = Success int string | Failure

definition resolveScan ::
  "ScanOutcome \<Rightarrow> string \<Rightarrow> string \<Rightarrow> QueuePassenger list \<Rightarrow> ScannerState
     \<Rightarrow> Effect list \<times> ScannerState" where
  "resolveScan outcome language now passengers s =
     (case outcome of
        Success carriedSum carriedRecipient \<Rightarrow> handleScanSuccess language now passengers s
      | Failure \<Rightarrow> handleScanError passengers s)"

text \<open>
  Modelled from the spec: the parent that owns the passenger list is not among the
  sources. \<open>onUpdate\<close> has replace semantics: the parent takes the payload as the new
  list. On \<open>onAccept\<close> and on \<open>onReject\<close> the parent removes the passenger from the
  queue; on \<open>onReturn\<close> it resets the passenger to Pending and clears its \<open>qrData\<close>. A
  log entry does not touch the list. The list after a handler is the old list with the
  handler's calls applied in order.
\<close>

fun passengersAfter :: "Effect list \<Rightarrow> QueuePassenger list \<Rightarrow> QueuePassenger list" where
  "passengersAfter [] ps = ps"
| "passengersAfter (Log ev # es) ps = passengersAfter es ps"
| "passengersAfter (OnUpdate ps' # es) ps = passengersAfter es ps'"
| "passengersAfter (OnAccept i # es) ps =
     passengersAfter es (filter (\<lambda>p. id_p p \<noteq> i) ps)"
| "passengersAfter (OnReject i # es) ps =
     passengersAfter es (filter (\<lambda>p. id_p p \<noteq> i) ps)"
| "passengersAfter (OnReturn i # es) ps =
     passengersAfter es
       (map (\<lambda>p. if id_p p = i
                 then p\<lparr>scanned := Some False, qrError := Some False, qrData := None\<rparr>
                 else p) ps)"

text \<open>
  The user interface events that reach the scan session, each with the props and the
  clock reading it sees, and the component together with its parent as a state machine.
\<close>

datatype UIEvent =
    ScanClick bool
  | DialogResult ScanOutcome string string
  | DialogOpenChange bool

fun step ::
  "QueuePassenger list \<times> ScannerState \<Rightarrow> UIEvent \<Rightarrow> QueuePassenger list \<times> ScannerState" where
  "step (ps, s) (ScanClick disabled) =
     (passengersAfter (fst (scanButtonClick disabled ps s)) ps,
      snd (scanButtonClick disabled ps s))"
| "step (ps, s) (DialogResult outcome language now) =
     (passengersAfter (fst (resolveScan outcome language now ps s)) ps,
      snd (resolveScan outcome language now ps s))"
| "step (ps, s) (DialogOpenChange b) = (ps, onOpenChange b s)"

definition run ::
  "UIEvent list \<Rightarrow> QueuePassenger list \<times> ScannerState \<Rightarrow> QueuePassenger list \<times> ScannerState" where
  "run evs sys = foldl step sys evs"

text \<open>The data invariant of the passenger record, as a check over a list.\<close>

definition qrConsistent :: "QueuePassenger \<Rightarrow> bool" where
  "qrConsistent p = ((qrData p \<noteq> None) = (scanStatus p = Scanned))"

definition qrDataIffScanned :: "QueuePassenger list \<Rightarrow> bool" where
  "qrDataIffScanned ps = list_all qrConsistent ps"

subsection \<open>Concrete states and passengers\<close>

definition initialState :: ScannerState where
  \<comment> \<open>the initial values of the three \<open>useState\<close> cells\<close>
  "initialState = \<lparr>showScanner = False, currentScanId = None, scanLocked = False\<rparr>"

definition lockedOn :: "int \<Rightarrow> ScannerState" where
  \<comment> \<open>the state \<open>handleStartScan\<close> leaves after picking passenger \<open>i\<close>\<close>
  "lockedOn i = \<lparr>showScanner = True, currentScanId = Some i, scanLocked = True\<rparr>"

definition pendingPassenger :: "int \<Rightarrow> int \<Rightarrow> int \<Rightarrow> QueuePassenger" where
  \<comment> \<open>a passenger with the given id, position and ticket count and no optional field\<close>
  "pendingPassenger i pos tickets =
     \<lparr>id_p = i, name = ''P'', queuePosition = pos, isFirst = False, count = 1,
      ticketCount = tickets, orderNumber = i,
      scanned = None, qrError = None, qrData = None\<rparr>"

definition paidPassenger :: "int \<Rightarrow> int \<Rightarrow> int \<Rightarrow> QueuePassenger" where
  \<comment> \<open>the same passenger after a successful scan\<close>
  "paidPassenger i pos tickets =
     (pendingPassenger i pos tickets)
       \<lparr>scanned := Some True, qrError := Some False,
        qrData := Some \<lparr>sum_qr = tickets * 320, recipient = ''Driver Ivanov I.'',
                        created_at = ''2024-01-01T00:00:00.000Z''\<rparr>\<rparr>"

definition erroredPassenger :: "int \<Rightarrow> int \<Rightarrow> int \<Rightarrow> QueuePassenger" where
  \<comment> \<open>the same passenger after a failed scan\<close>
  "erroredPassenger i pos tickets =
     (pendingPassenger i pos tickets)\<lparr>qrError := Some True, scanned := Some False\<rparr>"

subsection \<open>Auxiliary predicate\<close>

text \<open>
  While a scan is in flight, no passenger the session targets carries payment data. This
  is the part of the reachable-state invariant that concerns the session.
\<close>

definition targetsHaveNoData :: "QueuePassenger list \<times> ScannerState \<Rightarrow> bool" where
  "targetsHaveNoData sys =
     (truthyId (currentScanId (snd sys)) \<longrightarrow>
        list_all (\<lambda>p. Some (id_p p) = currentScanId (snd sys) \<longrightarrow> qrData p = None) (fst sys))"

section \<open>Basic facts\<close>

lemmas handler_defs = handleStartScan_def handleScanSuccess_def handleScanError_def
  resolveScan_def truthyId_def truthy_def scannable_def

lemmas example_defs = initialState_def lockedOn_def pendingPassenger_def paidPassenger_def
  erroredPassenger_def

lemma pending_iff_scannable: "(scanStatus p = Pending) = scannable p"
  by (simp add: scanStatus_def scannable_def)

lemma run_Nil: "run [] sys = sys"
  by (simp add: run_def)

lemma run_Cons: "run (e # evs) sys = run evs (step sys e)"
  by (simp add: run_def)

lemma run_snoc: "run (evs @ [e]) sys = step (run evs sys) e"
  by (simp add: run_def)

section \<open>The lifecycle tables\<close>

text \<open>
  C9. Each of the six race states has an entry in the button table and an entry in the
  panel table, and the action of its button entry is not \<open>none\<close>.
\<close>

theorem race_state_tables_total:
  "\<exists>b v. map_of RACE_STATE_TO_BUTTON st = Some b \<and> action b \<noteq> none
       \<and> map_of RACE_STATE_TO_PANELS st = Some v"
  by (cases st) (simp_all add: RACE_STATE_TO_BUTTON_def RACE_STATE_TO_PANELS_def)

text \<open>
  C7, as stated, fails: a status outside the legacy vocabulary has no entry in the table,
  so reading it gives \<open>undefined\<close>, an absent result and not an error value.
\<close>

theorem trip_status_unknown_counterexample:
  "map_of TRIP_STATUS_TO_RACE_STATE ''UNKNOWN'' = None"
  by (simp add: TRIP_STATUS_TO_RACE_STATE_def)

text \<open>
  C7, amended. The table maps each of the six legacy keys to its race state and holds
  no entry for any other string.
\<close>

theorem trip_status_table_entries:
  "map_of TRIP_STATUS_TO_RACE_STATE k =
     (if k = ''PREP_IDLE'' then Some RACE_OFFLINE
      else if k = ''PREP_TIMER'' then Some RACE_WAITING_START
      else if k = ''BOARDING'' then Some RACE_BOARDING
      else if k = ''ROUTE_READY'' then Some RACE_ARRIVED_STOP
      else if k = ''IN_ROUTE'' then Some RACE_IN_TRANSIT
      else if k = ''FINISHED'' then Some RACE_FINISHED
      else None)"
  by (simp add: TRIP_STATUS_TO_RACE_STATE_def)

section \<open>Starting a scan\<close>

text \<open>
  C3, as stated, fails: a click on the scan button of a locked session is not answered
  with Blocked. After the first click has locked the session on passenger 1, the lock
  disables the button, so the second click runs no handler and nothing is logged. The
  refusals that \<open>handleStartScan\<close> makes itself do log \<open>ui:blocked\<close> with a reason, as
  the click on a queue without a pending passenger shows.
\<close>

theorem locked_click_reports_nothing_counterexample:
  "run [ScanClick False]
       ([pendingPassenger 1 1 2, pendingPassenger 2 2 1], initialState)
     = ([pendingPassenger 1 1 2, pendingPassenger 2 2 1], lockedOn 1)
   \<and> scanButtonClick False [pendingPassenger 1 1 2, pendingPassenger 2 2 1] (lockedOn 1)
     = ([], lockedOn 1)
   \<and> scanButtonClick False [erroredPassenger 1 1 2] initialState
     = ([Log (ui_blocked ''queue_scan'' ''no_passengers_available'')], initialState)"
  by (simp add: run_def scanButtonClick_def awaitingDecision_def handler_defs example_defs)

lemma locked_clicks_inert:
  assumes "scanLocked s"
  shows "run (map ScanClick ds) (qs, s) = (qs, s)"
  using assms
  by (induction ds) (simp_all add: run_Nil run_Cons scanButtonClick_def)

text \<open>
  C3, amended. Once \<open>handleStartScan\<close> has succeeded on passenger \<open>i\<close>, the session is
  locked on \<open>i\<close>, and the lock disables the scan button. Every subsequent click on it,
  whatever the \<open>disabled\<close> prop and the passenger list, runs no handler: it reports
  nothing, picks no passenger and leaves the session as it is; so does any sequence of
  such clicks, which leaves the passenger list as it is too.
\<close>

theorem scan_button_inert_while_locked:
  assumes "fst (handleStartScan disabled ps s) = [Log (scan_start i ''queue'')]"
  shows "scanLocked (snd (handleStartScan disabled ps s))
       \<and> currentScanId (snd (handleStartScan disabled ps s)) = Some i
       \<and> scanButtonClick d qs (snd (handleStartScan disabled ps s))
           = ([], snd (handleStartScan disabled ps s))
       \<and> run (map ScanClick ds) (qs, snd (handleStartScan disabled ps s))
           = (qs, snd (handleStartScan disabled ps s))"
proof -
  let ?s1 = "snd (handleStartScan disabled ps s)"
  from assms have l: "scanLocked ?s1" and c: "currentScanId ?s1 = Some i"
    by (auto simp add: handleStartScan_def split: if_splits option.splits)
  from l have b: "scanButtonClick d qs ?s1 = ([], ?s1)"
    by (simp add: scanButtonClick_def)
  from locked_clicks_inert [OF l, of ds qs] l c b show ?thesis by simp
qed

theorem scan_button_inert_while_locked_witness:
  "fst (handleStartScan False [pendingPassenger 1 1 2, pendingPassenger 2 2 1] initialState)
     = [Log (scan_start 1 ''queue'')]
   \<and> snd (handleStartScan False [pendingPassenger 1 1 2, pendingPassenger 2 2 1] initialState)
     = lockedOn 1
   \<and> scanButtonClick False [pendingPassenger 2 2 1] (lockedOn 1) = ([], lockedOn 1)
   \<and> run (map ScanClick [False, True, False]) ([pendingPassenger 2 2 1], lockedOn 1)
     = ([pendingPassenger 2 2 1], lockedOn 1)"
proof -
  have h: "fst (handleStartScan False [pendingPassenger 1 1 2, pendingPassenger 2 2 1]
      initialState) = [Log (scan_start 1 ''queue'')]"
    by (simp add: handler_defs example_defs)
  have e: "snd (handleStartScan False [pendingPassenger 1 1 2, pendingPassenger 2 2 1]
      initialState) = lockedOn 1"
    by (simp add: handler_defs example_defs)
  from scan_button_inert_while_locked
    [OF h, of False "[pendingPassenger 2 2 1]" "[False, True, False]"] h e
  show ?thesis by simp
qed

text \<open>
  C4, as stated, fails: the passenger is found by position in the array, and
  \<open>queuePosition\<close> is never read. With the pending passenger of position 2 stored before
  the pending passenger of position 1, the one of position 2 is picked.
\<close>

theorem start_ignores_position_counterexample:
  "handleStartScan False [pendingPassenger 1 2 1, pendingPassenger 2 1 1] initialState
     = ([Log (scan_start 1 ''queue'')], lockedOn 1)
   \<and> queuePosition (pendingPassenger 1 2 1) = 2
   \<and> queuePosition (pendingPassenger 2 1 1) = 1
   \<and> scanStatus (pendingPassenger 2 1 1) = Pending"
  by (simp add: handler_defs example_defs scanStatus_def)

text \<open>
  C4, amended. When the component is not disabled and some passenger is pending,
  \<open>handleStartScan\<close> succeeds on the first pending passenger in list order, skipping the
  scanned and errored ones before it; when the list is in ascending \<open>queuePosition\<close>
  order, that passenger has the least position among the pending ones.
\<close>

theorem start_selects_first_pending:
  assumes "\<not> disabled" and "\<exists>p \<in> set ps. scanStatus p = Pending"
  shows "\<exists>k < length ps.
           scanStatus (ps ! k) = Pending
         \<and> (\<forall>j < k. scanStatus (ps ! j) \<noteq> Pending)
         \<and> handleStartScan disabled ps s
             = ([Log (scan_start (id_p (ps ! k)) ''queue'')],
                s\<lparr>currentScanId := Some (id_p (ps ! k)), scanLocked := True,
                  showScanner := True\<rparr>)
         \<and> (sorted_wrt (\<lambda>a b. queuePosition a \<le> queuePosition b) ps \<longrightarrow>
              (\<forall>q \<in> set ps. scanStatus q = Pending \<longrightarrow>
                 queuePosition (ps ! k) \<le> queuePosition q))"
proof -
  from assms(2) have "List.find scannable ps \<noteq> None"
    by (auto simp add: find_None_iff pending_iff_scannable)
  then obtain p where f: "List.find scannable ps = Some p" by auto
  then obtain k where k: "k < length ps" "scannable (ps ! k)" "p = ps ! k"
    "\<forall>j < k. \<not> scannable (ps ! j)"
    by (auto simp add: find_Some_iff)
  have least: "queuePosition (ps ! k) \<le> queuePosition q"
    if srt: "sorted_wrt (\<lambda>a b. queuePosition a \<le> queuePosition b) ps"
      and q: "q \<in> set ps" "scanStatus q = Pending" for q
  proof -
    from q(1) obtain m where m: "m < length ps" "q = ps ! m"
      by (auto simp add: in_set_conv_nth)
    from q(2) m k(4) have "\<not> m < k" by (auto simp add: pending_iff_scannable)
    then have "k = m \<or> k < m" by arith
    with srt m k(1) show ?thesis by (auto simp add: sorted_wrt_iff_nth_less)
  qed
  from f k assms(1) have
    "handleStartScan disabled ps s
       = ([Log (scan_start (id_p (ps ! k)) ''queue'')],
          s\<lparr>currentScanId := Some (id_p (ps ! k)), scanLocked := True, showScanner := True\<rparr>)"
    by (simp add: handleStartScan_def)
  with k least show ?thesis
    by (auto simp add: pending_iff_scannable intro!: exI [of _ k])
qed

theorem start_selects_first_pending_witness:
  "\<not> False
   \<and> (\<exists>p \<in> set [erroredPassenger 1 1 1, pendingPassenger 2 2 1]. scanStatus p = Pending)
   \<and> handleStartScan False [erroredPassenger 1 1 1, pendingPassenger 2 2 1] initialState
       = ([Log (scan_start 2 ''queue'')], lockedOn 2)"
proof -
  have h1: "\<not> False" by simp
  have h2: "\<exists>p \<in> set [erroredPassenger 1 1 1, pendingPassenger 2 2 1]. scanStatus p = Pending"
    by (simp add: scanStatus_def truthy_def example_defs)
  from start_selects_first_pending [OF h1 h2, of initialState] h2
  show ?thesis by (simp add: handler_defs example_defs)
qed

section \<open>Resolving a scan\<close>

text \<open>
  C6: the lock is not released on every resolution. \<open>handleScanSuccess\<close> returns at its
  second guard when the targeted passenger is no longer in the list, before the three
  \<open>set...\<close> calls, and the session stays locked; \<open>handleScanError\<close>, on the same input,
  releases it. On a session that targets the id 0 the first guard \<open>!currentScanId\<close> stops
  both handlers.
\<close>

theorem success_without_passenger_keeps_lock:
  "resolveScan (Success 640 ''Driver X'') ''en'' ''2024-01-01T00:00:00.000Z'' [] (lockedOn 5)
     = ([], lockedOn 5)
   \<and> scanLocked (lockedOn 5) = True
   \<and> snd (resolveScan Failure ''en'' ''2024-01-01T00:00:00.000Z'' [] (lockedOn 5))
       = initialState
   \<and> handleStartScan False [pendingPassenger 0 1 1] initialState
       = ([Log (scan_start 0 ''queue'')], lockedOn 0)
   \<and> resolveScan Failure ''en'' ''2024-01-01T00:00:00.000Z'' [pendingPassenger 0 1 1] (lockedOn 0)
       = ([], lockedOn 0)"
  by (simp add: handler_defs example_defs)

text \<open>
  C2: dismissing the dialog does not release the lock. The open-state callback only
  clears \<open>showScanner\<close>; after a scan has started and the dialog is dismissed, the session
  is still locked on passenger 1, and the scan button, disabled by the lock, does nothing.
\<close>

theorem dismiss_leaves_lock:
  "run [ScanClick False, DialogOpenChange False] ([pendingPassenger 1 1 2], initialState)
     = ([pendingPassenger 1 1 2],
        \<lparr>showScanner = False, currentScanId = Some 1, scanLocked = True\<rparr>)
   \<and> run [ScanClick False, DialogOpenChange False, ScanClick False]
         ([pendingPassenger 1 1 2], initialState)
     = ([pendingPassenger 1 1 2],
        \<lparr>showScanner = False, currentScanId = Some 1, scanLocked = True\<rparr>)"
  by (simp add: run_def scanButtonClick_def awaitingDecision_def onOpenChange_def
      handler_defs example_defs)

text \<open>
  C8, as stated, fails: the handler takes nothing from the outcome. With an outcome that
  carries the sum 100 and the recipient \<open>Driver X\<close>, a passenger with two tickets gets
  the sum 640 and the recipient \<open>Driver Ivanov I.\<close>
\<close>

theorem success_payload_counterexample:
  "map qrData (passengersAfter
      (fst (resolveScan (Success 100 ''Driver X'') ''en'' ''2024-01-01T00:00:00.000Z''
              [pendingPassenger 1 1 2] (lockedOn 1)))
      [pendingPassenger 1 1 2])
   = [Some \<lparr>sum_qr = 640, recipient = ''Driver Ivanov I.'',
             created_at = ''2024-01-01T00:00:00.000Z''\<rparr>]"
  by (simp add: handler_defs example_defs driverName_def)

text \<open>
  C8, amended. On a session that targets a non-zero id \<open>i\<close> found in the list, a Success
  outcome sets every passenger with id \<open>i\<close> to scanned, without error, with payment data
  whose sum is 320 times the ticket count of the first passenger with that id, whose
  recipient is the driver name of the current language and whose creation time is the
  current time, whatever the outcome carries. The status of that passenger is Scanned.
\<close>

theorem success_attaches_mock_data:
  assumes "currentScanId s = Some i" and "i \<noteq> 0"
    and "List.find (\<lambda>p. id_p p = i) ps = Some target"
    and "k < length ps" and "id_p (ps ! k) = i"
  shows "passengersAfter
           (fst (resolveScan (Success carriedSum carriedRecipient) language now ps s)) ps ! k
       = (ps ! k)\<lparr>scanned := Some True, qrError := Some False,
                   qrData := Some \<lparr>sum_qr = ticketCount target * 320,
                                   recipient = driverName language,
                                   created_at = now\<rparr>\<rparr>
     \<and> scanStatus (passengersAfter
           (fst (resolveScan (Success carriedSum carriedRecipient) language now ps s)) ps ! k)
         = Scanned"
  using assms by (simp add: handler_defs scanStatus_def)

theorem success_attaches_mock_data_witness:
  "currentScanId (lockedOn 1) = Some 1 \<and> (1::int) \<noteq> 0
   \<and> List.find (\<lambda>p. id_p p = 1) [pendingPassenger 1 1 2] = Some (pendingPassenger 1 1 2)
   \<and> (0::nat) < length [pendingPassenger 1 1 2]
   \<and> id_p ([pendingPassenger 1 1 2] ! 0) = 1
   \<and> passengersAfter
        (fst (resolveScan (Success 640 ''Driver X'') ''en'' ''2024-01-01T00:00:00.000Z''
                [pendingPassenger 1 1 2] (lockedOn 1))) [pendingPassenger 1 1 2] ! 0
       = paidPassenger 1 1 2"
proof -
  have h1: "currentScanId (lockedOn 1) = Some 1" by (simp add: lockedOn_def)
  have h2: "(1::int) \<noteq> 0" by simp
  have h3: "List.find (\<lambda>p. id_p p = 1) [pendingPassenger 1 1 2] = Some (pendingPassenger 1 1 2)"
    by (simp add: pendingPassenger_def)
  have h4: "(0::nat) < length [pendingPassenger 1 1 2]" by simp
  have h5: "id_p ([pendingPassenger 1 1 2] ! 0) = 1" by (simp add: pendingPassenger_def)
  from success_attaches_mock_data [OF h1 h2 h3 h4 h5, of 640 "''Driver X''" "''en''"
      "''2024-01-01T00:00:00.000Z''"] h1 h2 h3 h4 h5
  show ?thesis by (simp add: example_defs driverName_def)
qed

text \<open>
  C10. Whatever the outcome and the session, resolving a scan keeps the length of the
  passenger list and the order of its ids and positions, and leaves every passenger
  whose id is not the session's \<open>currentScanId\<close> as it was, in every field.
\<close>

theorem resolve_frame:
  "length (passengersAfter (fst (resolveScan outcome language now ps s)) ps) = length ps
   \<and> map id_p (passengersAfter (fst (resolveScan outcome language now ps s)) ps)
       = map id_p ps
   \<and> map queuePosition (passengersAfter (fst (resolveScan outcome language now ps s)) ps)
       = map queuePosition ps
   \<and> (k < length ps \<and> Some (id_p (ps ! k)) \<noteq> currentScanId s \<longrightarrow>
        passengersAfter (fst (resolveScan outcome language now ps s)) ps ! k = ps ! k)"
  by (cases outcome) (auto simp add: handler_defs Let_def split: option.splits)

theorem resolve_frame_witness:
  "(1::nat) < length [pendingPassenger 1 1 2, erroredPassenger 2 2 1]
   \<and> Some (id_p ([pendingPassenger 1 1 2, erroredPassenger 2 2 1] ! 1))
       \<noteq> currentScanId (lockedOn 1)
   \<and> passengersAfter
        (fst (resolveScan Failure ''en'' ''2024-01-01T00:00:00.000Z''
                [pendingPassenger 1 1 2, erroredPassenger 2 2 1] (lockedOn 1)))
        [pendingPassenger 1 1 2, erroredPassenger 2 2 1] ! 1
       = erroredPassenger 2 2 1
   \<and> length (passengersAfter
        (fst (resolveScan Failure ''en'' ''2024-01-01T00:00:00.000Z''
                [pendingPassenger 1 1 2, erroredPassenger 2 2 1] (lockedOn 1)))
        [pendingPassenger 1 1 2, erroredPassenger 2 2 1]) = 2"
proof -
  have h: "(1::nat) < length [pendingPassenger 1 1 2, erroredPassenger 2 2 1]
      \<and> Some (id_p ([pendingPassenger 1 1 2, erroredPassenger 2 2 1] ! 1))
          \<noteq> currentScanId (lockedOn 1)"
    by (simp add: example_defs)
  from resolve_frame [of Failure "''en''" "''2024-01-01T00:00:00.000Z''"
      "[pendingPassenger 1 1 2, erroredPassenger 2 2 1]" "lockedOn 1" 1] h
  show ?thesis by simp
qed

section \<open>Payment data and scan status\<close>

lemma consistent_success:
  "qrConsistent (p\<lparr>scanned := Some True, qrError := Some False, qrData := Some d\<rparr>)"
  by (simp add: qrConsistent_def scanStatus_def truthy_def)

lemma consistent_failure:
  "qrData p = None \<Longrightarrow> qrConsistent (p\<lparr>qrError := Some True, scanned := Some False\<rparr>)"
  by (simp add: qrConsistent_def scanStatus_def truthy_def)

lemma no_decision_no_data:
  assumes "qrConsistent p" and "\<not> awaitingDecision p"
  shows "qrData p = None"
  using assms
  by (auto simp add: qrConsistent_def awaitingDecision_def scanStatus_def split: if_splits)

lemma scan_click_inv:
  assumes "qrDataIffScanned ps" and "targetsHaveNoData (ps, s)"
  shows "qrDataIffScanned (fst (step (ps, s) (ScanClick d)))
       \<and> targetsHaveNoData (step (ps, s) (ScanClick d))"
proof (cases "\<not> list_ex awaitingDecision ps \<and> \<not> (d \<or> scanLocked s)")
  case False
  with assms show ?thesis by (auto simp add: scanButtonClick_def)
next
  case True
  with assms(1) have nd: "\<forall>p \<in> set ps. qrData p = None"
    by (auto simp add: qrDataIffScanned_def list_all_iff list_ex_iff no_decision_no_data)
  from True have eq: "scanButtonClick d ps s = handleStartScan d ps s"
    by (simp add: scanButtonClick_def)
  have p: "passengersAfter (fst (handleStartScan d ps s)) ps = ps"
    by (simp add: handleStartScan_def split: option.splits)
  from nd have "targetsHaveNoData (ps, s')" for s'
    by (simp add: targetsHaveNoData_def list_all_iff)
  with assms(1) eq p show ?thesis by simp
qed

lemma success_inv:
  assumes "qrDataIffScanned ps" and "targetsHaveNoData (ps, s)"
  shows "qrDataIffScanned (passengersAfter (fst (handleScanSuccess language now ps s)) ps)
       \<and> targetsHaveNoData (passengersAfter (fst (handleScanSuccess language now ps s)) ps,
            snd (handleScanSuccess language now ps s))"
proof (cases "truthyId (currentScanId s)")
  case False
  with assms show ?thesis by (simp add: handleScanSuccess_def)
next
  case True
  show ?thesis
  proof (cases "List.find (\<lambda>p. Some (id_p p) = currentScanId s) ps")
    case None
    with True assms show ?thesis by (simp add: handleScanSuccess_def)
  next
    case (Some t)
    from assms(1) have "\<forall>p \<in> set ps. qrConsistent p"
      by (simp add: qrDataIffScanned_def list_all_iff)
    then have "qrDataIffScanned
       (map (\<lambda>p. if Some (id_p p) = currentScanId s
                 then p\<lparr>scanned := Some True, qrError := Some False, qrData := Some d\<rparr>
                 else p) ps)" for d
      by (auto simp add: qrDataIffScanned_def list_all_iff consistent_success)
    with True Some show ?thesis
      by (simp add: handleScanSuccess_def targetsHaveNoData_def truthyId_def)
  qed
qed

lemma failure_inv:
  assumes "qrDataIffScanned ps" and "targetsHaveNoData (ps, s)"
  shows "qrDataIffScanned (passengersAfter (fst (handleScanError ps s)) ps)
       \<and> targetsHaveNoData (passengersAfter (fst (handleScanError ps s)) ps,
            snd (handleScanError ps s))"
proof (cases "truthyId (currentScanId s)")
  case False
  with assms show ?thesis by (simp add: handleScanError_def)
next
  case True
  from assms(1) have c: "\<forall>p \<in> set ps. qrConsistent p"
    by (simp add: qrDataIffScanned_def list_all_iff)
  from assms(2) True
  have n: "\<forall>p \<in> set ps. Some (id_p p) = currentScanId s \<longrightarrow> qrData p = None"
    by (simp add: targetsHaveNoData_def list_all_iff)
  from c n have "qrDataIffScanned
       (map (\<lambda>p. if Some (id_p p) = currentScanId s
                 then p\<lparr>qrError := Some True, scanned := Some False\<rparr>
                 else p) ps)"
    by (auto simp add: qrDataIffScanned_def list_all_iff consistent_failure)
  with True show ?thesis
    by (simp add: handleScanError_def targetsHaveNoData_def truthyId_def)
qed

lemma step_inv:
  assumes "qrDataIffScanned (fst sys)" and "targetsHaveNoData sys"
  shows "qrDataIffScanned (fst (step sys e)) \<and> targetsHaveNoData (step sys e)"
proof (cases sys)
  case (Pair ps s)
  show ?thesis
  proof (cases e)
    case (ScanClick d)
    with Pair assms scan_click_inv [of ps s d] show ?thesis by simp
  next
    case (DialogResult outcome language now)
    show ?thesis
    proof (cases outcome)
      case (Success a b)
      with Pair DialogResult assms success_inv [of ps s language now] show ?thesis
        by (simp add: resolveScan_def)
    next
      case Failure
      with Pair DialogResult assms failure_inv [of ps s] show ?thesis
        by (simp add: resolveScan_def)
    qed
  next
    case (DialogOpenChange b)
    with Pair assms show ?thesis
      by (simp add: onOpenChange_def targetsHaveNoData_def)
  qed
qed

lemma run_inv:
  assumes "qrDataIffScanned (fst sys)" and "targetsHaveNoData sys"
  shows "qrDataIffScanned (fst (run evs sys)) \<and> targetsHaveNoData (run evs sys)"
proof (induction evs rule: rev_induct)
  case Nil
  from assms show ?case by (simp add: run_Nil)
next
  case (snoc e evs)
  then show ?case by (simp add: run_snoc step_inv)
qed

text \<open>
  C1, as stated, fails: \<open>handleScanError\<close> copies the passenger and sets the two flags
  only. A Failure on a session that targets a scanned passenger leaves that passenger
  with status Error and with its payment data still attached.
\<close>

theorem failure_keeps_qr_data_counterexample:
  "qrDataIffScanned [paidPassenger 1 1 2]
   \<and> map scanStatus (passengersAfter
         (fst (resolveScan Failure ''en'' ''2024-01-02T00:00:00.000Z''
                 [paidPassenger 1 1 2] (lockedOn 1)))
         [paidPassenger 1 1 2]) = [Error]
   \<and> map qrData (passengersAfter
         (fst (resolveScan Failure ''en'' ''2024-01-02T00:00:00.000Z''
                 [paidPassenger 1 1 2] (lockedOn 1)))
         [paidPassenger 1 1 2])
       = [Some \<lparr>sum_qr = 640, recipient = ''Driver Ivanov I.'',
                 created_at = ''2024-01-01T00:00:00.000Z''\<rparr>]"
  by (simp add: handler_defs example_defs scanStatus_def qrDataIffScanned_def
      qrConsistent_def)

text \<open>
  C1, amended. Starting from a session with no current scan and a passenger list in
  which payment data is present exactly on the scanned passengers, every sequence of
  scan clicks, dialog results and dialog open-state changes ends in a list with the same
  property. A Failure outcome on a session that targets a non-zero id sets the status
  of each targeted passenger to Error and leaves its \<open>qrData\<close> field as it was: absent
  stays absent, and data that was present is not cleared.
\<close>

theorem scan_events_keep_qr_invariant:
  "(qrDataIffScanned ps \<and> currentScanId s = None \<longrightarrow>
      qrDataIffScanned (fst (run evs (ps, s))))
   \<and> (truthyId (currentScanId s') \<and> k < length qs
        \<and> Some (id_p (qs ! k)) = currentScanId s' \<longrightarrow>
        scanStatus (passengersAfter (fst (resolveScan Failure language now qs s')) qs ! k)
          = Error
      \<and> qrData (passengersAfter (fst (resolveScan Failure language now qs s')) qs ! k)
          = qrData (qs ! k))"
proof -
  have a: "qrDataIffScanned (fst (run evs (ps, s)))"
    if "qrDataIffScanned ps" and "currentScanId s = None"
    using that run_inv [of "(ps, s)" evs]
    by (simp add: targetsHaveNoData_def truthyId_def)
  have b: "scanStatus (passengersAfter (fst (resolveScan Failure language now qs s')) qs ! k)
        = Error
      \<and> qrData (passengersAfter (fst (resolveScan Failure language now qs s')) qs ! k)
          = qrData (qs ! k)"
    if "truthyId (currentScanId s')" and "k < length qs"
      and "Some (id_p (qs ! k)) = currentScanId s'"
    using that by (simp add: resolveScan_def handleScanError_def scanStatus_def truthy_def)
  from a b show ?thesis by blast
qed

theorem scan_events_keep_qr_invariant_witness:
  "qrDataIffScanned [pendingPassenger 1 1 2, pendingPassenger 2 2 1]
   \<and> currentScanId initialState = None
   \<and> qrDataIffScanned (fst (run
        [ScanClick False, DialogResult Failure ''en'' ''2024-01-01T00:00:00.000Z'',
         ScanClick False,
         DialogResult (Success 320 ''Driver X'') ''en'' ''2024-01-01T00:05:00.000Z'']
        ([pendingPassenger 1 1 2, pendingPassenger 2 2 1], initialState)))
   \<and> truthyId (currentScanId (lockedOn 1)) \<and> (0::nat) < length [pendingPassenger 1 1 2]
   \<and> Some (id_p ([pendingPassenger 1 1 2] ! 0)) = currentScanId (lockedOn 1)
   \<and> scanStatus (passengersAfter (fst (resolveScan Failure ''en'' ''2024-01-01T00:00:00.000Z''
        [pendingPassenger 1 1 2] (lockedOn 1))) [pendingPassenger 1 1 2] ! 0) = Error
   \<and> qrData (passengersAfter (fst (resolveScan Failure ''en'' ''2024-01-01T00:00:00.000Z''
        [pendingPassenger 1 1 2] (lockedOn 1))) [pendingPassenger 1 1 2] ! 0) = None"
proof -
  have h1: "qrDataIffScanned [pendingPassenger 1 1 2, pendingPassenger 2 2 1]"
    by (simp add: qrDataIffScanned_def qrConsistent_def scanStatus_def truthy_def
        example_defs)
  have h2: "currentScanId initialState = None"
    by (simp add: initialState_def)
  have h3: "truthyId (currentScanId (lockedOn 1))
     \<and> (0::nat) < length [pendingPassenger 1 1 2]
     \<and> Some (id_p ([pendingPassenger 1 1 2] ! 0)) = currentScanId (lockedOn 1)"
    by (simp add: truthyId_def example_defs)
  have h4: "qrData (pendingPassenger 1 1 2) = None"
    by (simp add: example_defs)
  from scan_events_keep_qr_invariant
    [of "[pendingPassenger 1 1 2, pendingPassenger 2 2 1]" initialState
        "[ScanClick False, DialogResult Failure ''en'' ''2024-01-01T00:00:00.000Z'',
          ScanClick False,
          DialogResult (Success 320 ''Driver X'') ''en'' ''2024-01-01T00:05:00.000Z'']"
        "lockedOn 1" 0 "[pendingPassenger 1 1 2]" "''en''" "''2024-01-01T00:00:00.000Z''"]
    h1 h2 h3 h4
  show ?thesis by simp
qed

section \<open>Accepting and rejecting\<close>

text \<open>
  C5, as stated, fails: \<open>handleAccept\<close> and \<open>handleReject\<close> receive an id (the buttons
  pass \<open>passenger.id\<close>, lines 224 and 231) and check nothing. For the id of a pending
  passenger each logs the click and calls its outward callback.
\<close>

theorem accept_unchecked_counterexample:
  "scanStatus (pendingPassenger 1 1 2) = Pending
   \<and> handleAccept (id_p (pendingPassenger 1 1 2))
       = [Log (accept_clicked 1 ''queue''), OnAccept 1]
   \<and> handleReject (id_p (pendingPassenger 1 1 2))
       = [Log (reject_clicked 1 ''queue''), OnReject 1]"
  by (simp add: handleAccept_def handleReject_def scanStatus_def truthy_def example_defs)

text \<open>
  C5, amended. For a passenger whose status is not Scanned no accept or reject button
  is rendered, so a click on either produces no log entry and no outward signal; for a
  passenger of the list that passes the render filter, with the component enabled, the
  click runs the handler on that passenger's id. The handlers themselves check nothing
  and never fail: for any id, \<open>handleAccept\<close> logs
  \<open>accept:clicked\<close> and calls \<open>onAccept\<close>, \<open>handleReject\<close> logs \<open>reject:clicked\<close> and calls
  \<open>onReject\<close>, and neither does anything else (no \<open>onUpdate\<close> call, no write to the scan
  session).
\<close>

theorem no_decision_buttons_unless_scanned:
  "(scanStatus p \<noteq> Scanned \<longrightarrow>
      acceptButtonClick disabled ps p = [] \<and> rejectButtonClick disabled ps p = [])
   \<and> (q \<in> set ps \<and> awaitingDecision q \<and> \<not> disabled \<longrightarrow>
        acceptButtonClick disabled ps q = handleAccept (id_p q)
      \<and> rejectButtonClick disabled ps q = handleReject (id_p q))
   \<and> handleAccept i = [Log (accept_clicked i ''queue''), OnAccept i]
   \<and> handleReject i = [Log (reject_clicked i ''queue''), OnReject i]"
  by (auto simp add: acceptButtonClick_def rejectButtonClick_def awaitingDecision_def
      scanStatus_def handleAccept_def handleReject_def split: if_splits)

theorem no_decision_buttons_unless_scanned_witness:
  "scanStatus (erroredPassenger 1 1 2) \<noteq> Scanned
   \<and> acceptButtonClick False [erroredPassenger 1 1 2, paidPassenger 2 2 1]
       (erroredPassenger 1 1 2) = []
   \<and> rejectButtonClick False [erroredPassenger 1 1 2, paidPassenger 2 2 1]
       (erroredPassenger 1 1 2) = []
   \<and> paidPassenger 2 2 1 \<in> set [erroredPassenger 1 1 2, paidPassenger 2 2 1]
   \<and> awaitingDecision (paidPassenger 2 2 1) \<and> \<not> False
   \<and> acceptButtonClick False [erroredPassenger 1 1 2, paidPassenger 2 2 1]
       (paidPassenger 2 2 1) = [Log (accept_clicked 2 ''queue''), OnAccept 2]
   \<and> rejectButtonClick False [erroredPassenger 1 1 2, paidPassenger 2 2 1]
       (paidPassenger 2 2 1) = [Log (reject_clicked 2 ''queue''), OnReject 2]"
proof -
  have h: "scanStatus (erroredPassenger 1 1 2) \<noteq> Scanned"
    by (simp add: scanStatus_def truthy_def example_defs)
  have g: "paidPassenger 2 2 1 \<in> set [erroredPassenger 1 1 2, paidPassenger 2 2 1]
      \<and> awaitingDecision (paidPassenger 2 2 1) \<and> \<not> False"
    by (simp add: awaitingDecision_def truthy_def example_defs)
  have i: "id_p (paidPassenger 2 2 1) = 2"
    by (simp add: example_defs)
  from no_decision_buttons_unless_scanned
    [of "erroredPassenger 1 1 2" False "[erroredPassenger 1 1 2, paidPassenger 2 2 1]"
        "paidPassenger 2 2 1" 2] h g i
  show ?thesis by simp
qed

end
